theory Spec2Isabelle
  imports Main
begin

section \<open>Text primitives used by the patch manager\<close>

text \<open>
  Text is a \<^typ>\<open>string\<close>; the newline character is \<open>CHR 0x0A\<close>.  The functions
  below are the pieces of Python's string and file API that
  \<^verbatim>\<open>scripts/patch_manager.py\<close> calls: \<^verbatim>\<open>f.readlines()\<close>, \<^verbatim>\<open>str.split('\n')\<close>,
  \<^verbatim>\<open>'\n'.join\<close>, \<^verbatim>\<open>str.strip\<close>, \<^verbatim>\<open>str.lstrip\<close> and \<^verbatim>\<open>str.endswith('\n')\<close>.
\<close>

definition NL :: char where
  "NL = CHR 0x0A"

text \<open>\<^verbatim>\<open>f.readlines()\<close>: the text cut after every newline, newlines kept.\<close>

fun readlines :: "string \<Rightarrow> string list" where
  "readlines [] = []"
| "readlines (c # cs) =
     (if c = NL then [c] # readlines cs
      else (case readlines cs of
              [] \<Rightarrow> [[c]]
            | l # ls \<Rightarrow> (c # l) # ls))"

text \<open>\<^verbatim>\<open>s.split('\n')\<close>: the pieces between newlines; never an empty list.\<close>

fun split_nl :: "string \<Rightarrow> string list" where
  "split_nl [] = [[]]"
| "split_nl (c # cs) =
     (if c = NL then [] # split_nl cs
      else (case split_nl cs of
              [] \<Rightarrow> [[c]]
            | l # ls \<Rightarrow> (c # l) # ls))"

text \<open>\<^verbatim>\<open>'\n'.join(xs)\<close>.\<close>

fun join_nl :: "string list \<Rightarrow> string" where
  "join_nl [] = []"
| "join_nl [x] = x"
| "join_nl (x # y # ys) = x @ NL # join_nl (y # ys)"

text \<open>
  The characters \<^verbatim>\<open>str.isspace\<close> accepts among the code points below 256:
  tab to carriage return, the four separators 0x1C to 0x1F, space, NEL and
  the no-break space.
\<close>

definition is_space :: "char \<Rightarrow> bool" where
  "is_space c =
     (let n = (of_char c :: nat)
      in (9 \<le> n \<and> n \<le> 13) \<or> (28 \<le> n \<and> n \<le> 32) \<or> n = 133 \<or> n = 160)"

definition lstrip :: "string \<Rightarrow> string" where
  "lstrip s = dropWhile is_space s"

definition strip :: "string \<Rightarrow> string" where
  "strip s = rev (dropWhile is_space (rev (dropWhile is_space s)))"

definition endswith_nl :: "string \<Rightarrow> bool" where
  "endswith_nl s = (s \<noteq> [] \<and> last s = NL)"

text \<open>
  Python slices \<^verbatim>\<open>xs[:i]\<close> and \<^verbatim>\<open>xs[i:]\<close> for an arbitrary integer \<open>i\<close>: a negative
  bound counts from the end, and every bound is clipped to the list.
\<close>

definition slice_bound :: "int \<Rightarrow> nat \<Rightarrow> nat" where
  "slice_bound i n = (if i < 0 then nat (max 0 (int n + i)) else min (nat i) n)"

definition slice_to :: "'a list \<Rightarrow> int \<Rightarrow> 'a list" where
  "slice_to xs i = take (slice_bound i (length xs)) xs"

definition slice_from :: "'a list \<Rightarrow> int \<Rightarrow> 'a list" where
  "slice_from xs i = drop (slice_bound i (length xs)) xs"

section \<open>Files, errors and the diff generator\<close>

type_synonym path = string

text \<open>The project tree: a path relative to the project root maps to the file's text.\<close>

type_synonym files = "path \<rightharpoonup> string"

text \<open>
  The exceptions the patch manager raises.  \<open>RangeError\<close> is the
  \<^verbatim>\<open>ValueError\<close> of \<^verbatim>\<open>replace_block\<close>, carrying the requested range and the
  line count of the file; \<open>LineError\<close> is the one of the two insert operations.
\<close>

datatype exn =
    FileNotFoundError path
  | BlockFileError path
  | ContentError
  | RangeError int int nat
  | LineError int nat
  | MissingField string
  | UnknownOperation string
  | SchemaValidationFailed nat

text \<open>
  \<^verbatim>\<open>difflib.unified_diff(a, b, fromfile, tofile, lineterm='')\<close> belongs to the
  Python standard library; the development takes it as a parameter \<open>udiff\<close>,
  given the two header names and the two line sequences.
\<close>

type_synonym differ = "path \<Rightarrow> path \<Rightarrow> string list \<Rightarrow> string list \<Rightarrow> string list"

definition read_file :: "files \<Rightarrow> path \<Rightarrow> exn + string list" where
  "read_file fs p =
     (case fs p of
        None \<Rightarrow> Inl (FileNotFoundError p)
      | Some t \<Rightarrow> Inr (readlines t))"

definition generate_unified_diff ::
  "differ \<Rightarrow> path \<Rightarrow> string list \<Rightarrow> string list \<Rightarrow> string" where
  "generate_unified_diff udiff p original_lines modified_lines =
     join_nl (udiff p p original_lines modified_lines)"

section \<open>The line editor\<close>

definition preserve_indentation :: "string \<Rightarrow> string \<Rightarrow> string" where
  "preserve_indentation original_line new_content =
     (if strip original_line = [] then new_content
      else
        let indent = length original_line - length (lstrip original_line);
            indent_str = take indent original_line;
            lines = split_nl new_content
        in join_nl ((indent_str @ lstrip (hd lines)) # tl lines))"

definition replace_block ::
  "differ \<Rightarrow> files \<Rightarrow> path \<Rightarrow> int \<Rightarrow> int \<Rightarrow> string \<Rightarrow> bool \<Rightarrow> exn + (string list \<times> string)" where
  "replace_block udiff fs p start_line end_line new_content preserve_indent =
     (case read_file fs p of
        Inl e \<Rightarrow> Inl e
      | Inr lines \<Rightarrow>
          let start_idx = start_line - 1;
              end_idx = end_line
          in if start_idx < 0 \<or> end_idx > int (length lines)
             then Inl (RangeError start_line end_line (length lines))
             else
               let content =
                     (if preserve_indent \<and> start_idx < int (length lines)
                      then preserve_indentation (lines ! nat start_idx) new_content
                      else new_content);
                   pieces = split_nl content;
                   new_lines =
                     (if pieces \<noteq> [] \<and> \<not> endswith_nl content then pieces
                      else map (\<lambda>line. if \<not> endswith_nl line then line @ [NL] else line) pieces);
                   modified_lines = slice_to lines start_idx @ new_lines @ slice_from lines end_idx
               in Inr (modified_lines, generate_unified_diff udiff p lines modified_lines))"


text \<open>
  The list comprehension shared by \<^verbatim>\<open>insert_before\<close> and \<^verbatim>\<open>insert_after\<close>: a
  non-empty piece without a final newline gets one, an empty piece stays empty.
\<close>

definition terminate_nonempty :: "string list \<Rightarrow> string list" where
  "terminate_nonempty pieces =
     map (\<lambda>line. if \<not> endswith_nl line \<and> line \<noteq> [] then line @ [NL] else line) pieces"

definition insert_before ::
  "differ \<Rightarrow> files \<Rightarrow> path \<Rightarrow> int \<Rightarrow> string \<Rightarrow> bool \<Rightarrow> exn + (string list \<times> string)" where
  "insert_before udiff fs p line_number new_content preserve_indent =
     (case read_file fs p of
        Inl e \<Rightarrow> Inl e
      | Inr lines \<Rightarrow>
          let insert_idx = line_number - 1
          in if insert_idx < 0 \<or> insert_idx > int (length lines)
             then Inl (LineError line_number (length lines))
             else
               let content =
                     (if preserve_indent \<and> insert_idx < int (length lines)
                      then preserve_indentation (lines ! nat insert_idx) new_content
                      else new_content);
                   new_lines = terminate_nonempty (split_nl content);
                   modified_lines = slice_to lines insert_idx @ new_lines @ slice_from lines insert_idx
               in Inr (modified_lines, generate_unified_diff udiff p lines modified_lines))"

definition insert_after ::
  "differ \<Rightarrow> files \<Rightarrow> path \<Rightarrow> int \<Rightarrow> string \<Rightarrow> bool \<Rightarrow> exn + (string list \<times> string)" where
  "insert_after udiff fs p line_number new_content preserve_indent =
     (case read_file fs p of
        Inl e \<Rightarrow> Inl e
      | Inr lines \<Rightarrow>
          let insert_idx = line_number
          in if insert_idx < 0 \<or> insert_idx > int (length lines)
             then Inl (LineError line_number (length lines))
             else
               let content =
                     (if preserve_indent \<and> insert_idx > 0
                      then preserve_indentation (lines ! nat (insert_idx - 1)) new_content
                      else new_content);
                   new_lines = terminate_nonempty (split_nl content);
                   modified_lines = slice_to lines insert_idx @ new_lines @ slice_from lines insert_idx
               in Inr (modified_lines, generate_unified_diff udiff p lines modified_lines))"

text \<open>
  \<^verbatim>\<open>append\<close> and \<^verbatim>\<open>prepend\<close> first make the content end with a newline, then
  give every non-empty piece its newline.
\<close>

definition normalized_lines :: "string \<Rightarrow> string list" where
  "normalized_lines new_content =
     (let content = (if \<not> endswith_nl new_content then new_content @ [NL] else new_content)
      in map (\<lambda>line. if line \<noteq> [] then line @ [NL] else line) (split_nl content))"

definition append_op :: "differ \<Rightarrow> files \<Rightarrow> path \<Rightarrow> string \<Rightarrow> exn + (string list \<times> string)" where
  "append_op udiff fs p new_content =
     (case read_file fs p of
        Inl e \<Rightarrow> Inl e
      | Inr lines \<Rightarrow>
          let modified_lines = lines @ normalized_lines new_content
          in Inr (modified_lines, generate_unified_diff udiff p lines modified_lines))"

definition prepend_op :: "differ \<Rightarrow> files \<Rightarrow> path \<Rightarrow> string \<Rightarrow> exn + (string list \<times> string)" where
  "prepend_op udiff fs p new_content =
     (case read_file fs p of
        Inl e \<Rightarrow> Inl e
      | Inr lines \<Rightarrow>
          let modified_lines = normalized_lines new_content @ lines
          in Inr (modified_lines, generate_unified_diff udiff p lines modified_lines))"

section \<open>Values read from JSON\<close>

text \<open>
  The Python value \<^verbatim>\<open>json.load\<close> returns.  A float is given by the text Python
  prints for it.  A dict is given by the members of the JSON object in their
  order; as in \<^verbatim>\<open>json.load\<close>, a later member of the same name replaces an earlier
  one, so \<^verbatim>\<open>d.get(k, default)\<close> reads the last binding of \<open>k\<close>.  The dict is empty
  exactly if the list is.
\<close>

datatype json =
    JNull
  | JBool bool
  | JInt int
  | JFloat string
  | JStr string
  | JArr "json list"
  | JObj "(string \<times> json) list"

definition dict_get :: "(string \<times> json) list \<Rightarrow> string \<Rightarrow> json \<Rightarrow> json" where
  "dict_get d k dflt = (case map_of (rev d) k of None \<Rightarrow> dflt | Some v \<Rightarrow> v)"

text \<open>The truth value of a Python value, as \<^verbatim>\<open>if v:\<close> and \<^verbatim>\<open>v and ...\<close> take it.\<close>

definition py_truthy :: "json \<Rightarrow> bool" where
  "py_truthy v =
     (case v of
        JNull \<Rightarrow> False
      | JBool b \<Rightarrow> b
      | JInt n \<Rightarrow> n \<noteq> 0
      | JFloat r \<Rightarrow> r \<noteq> ''0.0'' \<and> r \<noteq> ''-0.0''
      | JStr t \<Rightarrow> t \<noteq> []
      | JArr xs \<Rightarrow> xs \<noteq> []
      | JObj d \<Rightarrow> d \<noteq> [])"

text \<open>Decimal digits of a natural number, and \<^verbatim>\<open>str\<close> of an integer.\<close>

fun dec_nat :: "nat \<Rightarrow> string" where
  "dec_nat n =
     (if n < 10 then [char_of (48 + n)]
      else dec_nat (n div 10) @ [char_of (48 + n mod 10)])"

declare dec_nat.simps [simp del]

definition str_int :: "int \<Rightarrow> string" where
  "str_int n = (if n < 0 then CHR ''-'' # dec_nat (nat (- n)) else dec_nat (nat n))"

text \<open>
  \<^verbatim>\<open>str(v)\<close>.  For a list or a dict it is Python's \<^verbatim>\<open>repr\<close>, which the development
  takes as the parameter \<open>repr\<close>.
\<close>

definition py_str :: "(json \<Rightarrow> string) \<Rightarrow> json \<Rightarrow> string" where
  "py_str repr v =
     (case v of
        JNull \<Rightarrow> ''None''
      | JBool b \<Rightarrow> (if b then ''True'' else ''False'')
      | JInt n \<Rightarrow> str_int n
      | JFloat r \<Rightarrow> r
      | JStr t \<Rightarrow> t
      | JArr xs \<Rightarrow> repr v
      | JObj d \<Rightarrow> repr v)"

text \<open>\<^verbatim>\<open>x in y\<close> for two strings: \<open>x\<close> occurs in \<open>y\<close> as a contiguous piece.\<close>

fun starts_with :: "string \<Rightarrow> string \<Rightarrow> bool" where
  "starts_with [] ys = True"
| "starts_with (x # xs) [] = False"
| "starts_with (x # xs) (y # ys) = (x = y \<and> starts_with xs ys)"

fun occurs_in :: "string \<Rightarrow> string \<Rightarrow> bool" where
  "occurs_in xs [] = (xs = [])"
| "occurs_in xs (y # ys) = (starts_with xs (y # ys) \<or> occurs_in xs ys)"

text \<open>
  What goes wrong on a value of the wrong shape: \<^verbatim>\<open>.get\<close> on something that
  is no dict is an \<^verbatim>\<open>AttributeError\<close>; iterating, or testing membership in,
  \<^verbatim>\<open>None\<close>, a bool or a number is a \<^verbatim>\<open>TypeError\<close>.
\<close>

datatype shape_error =
    AttributeError
  | TypeError

text \<open>\<^verbatim>\<open>x in v\<close> for a string \<open>x\<close>: an element of a list, a piece of a string, a key of a dict.\<close>

definition py_contains :: "string \<Rightarrow> json \<Rightarrow> shape_error + bool" where
  "py_contains x v =
     (case v of
        JArr xs \<Rightarrow> Inr (JStr x \<in> set xs)
      | JStr t \<Rightarrow> Inr (occurs_in x t)
      | JObj d \<Rightarrow> Inr (x \<in> set (map fst d))
      | JNull \<Rightarrow> Inl TypeError
      | JBool b \<Rightarrow> Inl TypeError
      | JInt n \<Rightarrow> Inl TypeError
      | JFloat r \<Rightarrow> Inl TypeError)"

text \<open>
  The values a \<^verbatim>\<open>for\<close> loop over \<open>v\<close> takes: the elements of a list, the
  characters of a string, the keys of a dict.
\<close>

definition py_iter :: "json \<Rightarrow> shape_error + json list" where
  "py_iter v =
     (case v of
        JArr xs \<Rightarrow> Inr xs
      | JStr t \<Rightarrow> Inr (map (\<lambda>c. JStr [c]) t)
      | JObj d \<Rightarrow> Inr (map (\<lambda>kv. JStr (fst kv)) d)
      | JNull \<Rightarrow> Inl TypeError
      | JBool b \<Rightarrow> Inl TypeError
      | JInt n \<Rightarrow> Inl TypeError
      | JFloat r \<Rightarrow> Inl TypeError)"

section \<open>Operations, results and the type-check adapter\<close>

record patch_operation =
  op :: string
  op_file :: path
  start :: "int option"
  end_line :: "int option"
  line :: "int option"
  block :: "string option"
  blockFile :: "string option"
  openSpace :: bool
  taskId :: "string option"

record patch_batch =
  orderId :: "string option"
  requester :: string
  reason :: string
  branch :: string
  patches :: "patch_operation list"

text \<open>
  The dictionary \<^verbatim>\<open>apply_operation\<close> returns.  \<open>res_ts_check_ok\<close> is the Python
  \<^verbatim>\<open>Optional[bool]\<close>: \<open>Some True\<close> is pass, \<open>Some False\<close> is fail and \<open>None\<close> is
  not applicable.
\<close>

record op_result =
  success :: bool
  res_file :: path
  res_op :: string
  res_diff :: "string option"
  res_error :: "exn option"
  res_ts_check_ok :: "bool option"

text \<open>What \<^verbatim>\<open>subprocess.run(['npx', 'tsc', '--noEmit', file], timeout=30)\<close> can do.\<close>

datatype proc =
    Completed int string
  | TimeoutExpired
  | CommandNotFound
  | OtherFailure

text \<open>
  The manager: its dry-run flag, and the collaborators outside the
  repository it calls (the diff library, the type checker run on a file of the
  tree, the batch identifier made from process id and clock, and Python's
  \<^verbatim>\<open>repr\<close> of lists and dicts).
\<close>

record manager =
  dry_run :: bool
  udiff :: differ
  run_tsc :: "path \<Rightarrow> files \<Rightarrow> proc"
  generated_id :: string
  py_repr :: "json \<Rightarrow> string"

definition write_file :: "manager \<Rightarrow> files \<Rightarrow> path \<Rightarrow> string list \<Rightarrow> files" where
  "write_file m fs p lines = (if dry_run m then fs else fs(p \<mapsto> concat lines))"

definition truthy :: "string option \<Rightarrow> bool" where
  "truthy s = (case s of None \<Rightarrow> False | Some t \<Rightarrow> t \<noteq> [])"

definition get_content :: "files \<Rightarrow> patch_operation \<Rightarrow> exn + string" where
  "get_content fs operation =
     (if truthy (block operation) then Inr (the (block operation))
      else if truthy (blockFile operation) then
        (case fs (the (blockFile operation)) of
           None \<Rightarrow> Inl (BlockFileError (the (blockFile operation)))
         | Some t \<Rightarrow> Inr t)
      else Inl ContentError)"

definition check_typescript :: "proc \<Rightarrow> bool option" where
  "check_typescript r =
     (case r of
        Completed returncode err \<Rightarrow> Some (returncode = 0)
      | TimeoutExpired \<Rightarrow> Some False
      | CommandNotFound \<Rightarrow> None
      | OtherFailure \<Rightarrow> Some False)"

text \<open>\<^verbatim>\<open>Path.suffix\<close>: the last dot of the final path component and what follows,
  unless that dot is the first or the last character of the component.\<close>

definition final_name :: "path \<Rightarrow> string" where
  "final_name p = rev (takeWhile (\<lambda>c. c \<noteq> CHR ''/'') (rev p))"

definition path_suffix :: "path \<Rightarrow> string" where
  "path_suffix p =
     (let name = final_name p;
          ext = rev (takeWhile (\<lambda>c. c \<noteq> CHR ''.'') (rev name))
      in if CHR ''.'' \<in> set name \<and> length ext + 1 < length name \<and> ext \<noteq> []
         then CHR ''.'' # ext else [])"

text \<open>The chain of branches inside the \<^verbatim>\<open>try\<close> of \<^verbatim>\<open>apply_operation\<close>.\<close>

definition edit_lines ::
  "manager \<Rightarrow> files \<Rightarrow> patch_operation \<Rightarrow> string \<Rightarrow> exn + (string list \<times> string)" where
  "edit_lines m fs operation content =
     (if op operation = ''replace-block'' then
        (case (start operation, end_line operation) of
           (Some s, Some e) \<Rightarrow>
             replace_block (udiff m) fs (op_file operation) s e content (\<not> openSpace operation)
         | _ \<Rightarrow> Inl (MissingField ''replace-block''))
      else if op operation = ''insert-before'' then
        (case line operation of
           Some l \<Rightarrow> insert_before (udiff m) fs (op_file operation) l content (\<not> openSpace operation)
         | None \<Rightarrow> Inl (MissingField ''insert-before''))
      else if op operation = ''insert-after'' then
        (case line operation of
           Some l \<Rightarrow> insert_after (udiff m) fs (op_file operation) l content (\<not> openSpace operation)
         | None \<Rightarrow> Inl (MissingField ''insert-after''))
      else if op operation = ''append'' then append_op (udiff m) fs (op_file operation) content
      else if op operation = ''prepend'' then prepend_op (udiff m) fs (op_file operation) content
      else Inl (UnknownOperation (op operation)))"

text \<open>
  \<^verbatim>\<open>apply_operation\<close>.  \<open>Inl\<close> is an exception that leaves the function: the
  existence test and \<^verbatim>\<open>_get_content\<close> stand before the \<^verbatim>\<open>try\<close>.  An exception
  of the editing branches is caught and becomes a result with
  \<open>success = False\<close>.
\<close>

definition apply_operation ::
  "manager \<Rightarrow> files \<Rightarrow> patch_operation \<Rightarrow> exn + (op_result \<times> files)" where
  "apply_operation m fs operation =
     (if fs (op_file operation) = None then Inl (FileNotFoundError (op_file operation))
      else
        (case get_content fs operation of
           Inl e \<Rightarrow> Inl e
         | Inr content \<Rightarrow>
             (case edit_lines m fs operation content of
                Inl e \<Rightarrow>
                  Inr (\<lparr>success = False, res_file = op_file operation, res_op = op operation,
                        res_diff = None, res_error = Some e, res_ts_check_ok = Some False\<rparr>, fs)
              | Inr (modified_lines, diff) \<Rightarrow>
                  let fs' = write_file m fs (op_file operation) modified_lines;
                      ts_check_ok =
                        (if path_suffix (op_file operation) \<in> {''.ts'', ''.tsx''}
                         then check_typescript (run_tsc m (op_file operation) fs')
                         else None)
                  in Inr (\<lparr>success = True, res_file = op_file operation, res_op = op operation,
                           res_diff = Some diff, res_error = None,
                           res_ts_check_ok = ts_check_ok\<rparr>, fs'))))"


section \<open>The schema validator\<close>

text \<open>
  What \<^verbatim>\<open>open\<close> and \<^verbatim>\<open>json.load\<close> do with \<^verbatim>\<open>.mission_control/tasks.json\<close>: the
  file is missing; the load raises \<^verbatim>\<open>json.JSONDecodeError\<close> (the text is not
  JSON), \<^verbatim>\<open>UnicodeDecodeError\<close> (the bytes are not UTF-8 text) or any other
  exception (an \<^verbatim>\<open>OSError\<close> when the file cannot be opened or read, a
  \<^verbatim>\<open>RecursionError\<close>); or the load returns a value.
\<close>

datatype load_exception =
    JSONDecodeError
  | UnicodeDecodeError
  | OtherLoadError

datatype schema_file =
    NoSchemaFile
  | LoadRaises load_exception
  | Loaded json

text \<open>
  Why validation fails: one of the two \<^verbatim>\<open>ValueError\<close>s of the allow lists,
  a value of the wrong shape met on the way, or a schema file that could not
  be loaded.  All of them leave \<^verbatim>\<open>_validate_against_task_schema\<close> as the
  \<^verbatim>\<open>ValueError\<close> of its last handler.
\<close>

datatype violation =
    FileNotAllowed nat path string
  | OperationNotAllowed nat string string
  | IllShaped shape_error
  | LoadFailed load_exception

datatype warning =
    InvalidJsonInSchema
  | TaskNotFound nat string

text \<open>
  The inner loop over the tasks: the first task whose \<^verbatim>\<open>str(task.get('id'))\<close>
  is the task id; a task that is no dict stops the search with an
  \<^verbatim>\<open>AttributeError\<close>.
\<close>

fun lookup_task ::
  "manager \<Rightarrow> json list \<Rightarrow> string \<Rightarrow> shape_error + (string \<times> json) list option" where
  "lookup_task m [] tid = Inr None"
| "lookup_task m (t # ts) tid =
     (case t of
        JObj d \<Rightarrow>
          if py_str (py_repr m) (dict_get d ''id'' JNull) = tid then Inr (Some d)
          else lookup_task m ts tid
      | _ \<Rightarrow> Inl AttributeError)"

text \<open>
  The test of one allow list: \<^verbatim>\<open>expected and x not in expected\<close>, \<open>Inr True\<close>
  when the operation is rejected.
\<close>

definition rejected_by :: "json \<Rightarrow> string \<Rightarrow> shape_error + bool" where
  "rejected_by expected x =
     (if py_truthy expected then
        (case py_contains x expected of
           Inl e \<Rightarrow> Inl e
         | Inr b \<Rightarrow> Inr (\<not> b))
      else Inr False)"

text \<open>
  The body of the loop over the operations, for the operation of index \<open>i\<close>.
  \<open>Inl\<close> is an exception; \<open>Inr\<close> carries the warning logged, if any.  A task
  that was found but is an empty dict counts as not found (\<^verbatim>\<open>if task_def:\<close>).
\<close>

definition validate_operation ::
  "manager \<Rightarrow> json \<Rightarrow> nat \<Rightarrow> patch_operation \<Rightarrow> violation + warning list" where
  "validate_operation m schema i operation =
     (if truthy (taskId operation) then
        (case schema of
           JObj root \<Rightarrow>
             (case py_iter (dict_get root ''tasks'' (JArr [])) of
                Inl e \<Rightarrow> Inl (IllShaped e)
              | Inr ts \<Rightarrow>
                  (case lookup_task m ts (the (taskId operation)) of
                     Inl e \<Rightarrow> Inl (IllShaped e)
                   | Inr None \<Rightarrow> Inr [TaskNotFound (i + 1) (the (taskId operation))]
                   | Inr (Some task_def) \<Rightarrow>
                       if task_def \<noteq> [] then
                         (case rejected_by (dict_get task_def ''files'' (JArr []))
                                 (op_file operation) of
                            Inl e \<Rightarrow> Inl (IllShaped e)
                          | Inr True \<Rightarrow>
                              Inl (FileNotAllowed (i + 1) (op_file operation)
                                     (the (taskId operation)))
                          | Inr False \<Rightarrow>
                              (case rejected_by
                                      (dict_get task_def ''allowedOperations'' (JArr []))
                                      (op operation) of
                                 Inl e \<Rightarrow> Inl (IllShaped e)
                               | Inr True \<Rightarrow>
                                   Inl (OperationNotAllowed (i + 1) (op operation)
                                          (the (taskId operation)))
                               | Inr False \<Rightarrow> Inr []))
                       else Inr [TaskNotFound (i + 1) (the (taskId operation))]))
         | _ \<Rightarrow> Inl (IllShaped AttributeError))
      else Inr [])"

text \<open>
  The loop over the operations of the batch, \<open>i\<close> the index of the operation
  at the head: it stops at the first exception and otherwise collects the
  warnings.
\<close>

fun validate_operations ::
  "manager \<Rightarrow> json \<Rightarrow> nat \<Rightarrow> patch_operation list \<Rightarrow> violation + warning list" where
  "validate_operations m schema i [] = Inr []"
| "validate_operations m schema i (operation # rest) =
     (case validate_operation m schema i operation of
        Inl v \<Rightarrow> Inl v
      | Inr ws \<Rightarrow>
          (case validate_operations m schema (i + 1) rest of
             Inl v \<Rightarrow> Inl v
           | Inr ws' \<Rightarrow> Inr (ws @ ws')))"

datatype failure =
    Raised exn
  | ValidationFailed violation

text \<open>
  \<^verbatim>\<open>_validate_against_task_schema\<close>: no file, no validation; a
  \<^verbatim>\<open>JSONDecodeError\<close> is logged and swallowed; every other exception of the
  load or of the loop is raised again as the validation failure.
\<close>

definition validate_against_task_schema ::
  "manager \<Rightarrow> schema_file \<Rightarrow> patch_batch \<Rightarrow> failure + warning list" where
  "validate_against_task_schema m schema batch =
     (case schema of
        NoSchemaFile \<Rightarrow> Inr []
      | LoadRaises x \<Rightarrow>
          (if x = JSONDecodeError then Inr [InvalidJsonInSchema]
           else Inl (ValidationFailed (LoadFailed x)))
      | Loaded v \<Rightarrow>
          (case validate_operations m v 0 (patches batch) of
             Inl e \<Rightarrow> Inl (ValidationFailed e)
           | Inr ws \<Rightarrow> Inr ws))"

section \<open>The batch orchestrator and the notifier\<close>

text \<open>The payload \<^verbatim>\<open>notify_orchestrator\<close> is called with.\<close>

record event =
  ev_patch_id :: string
  ev_file :: path
  ev_op :: string
  ev_status :: string
  ev_task_id :: "string option"
  ev_ts_check_ok :: "bool option"
  ev_operation_index :: nat
  ev_total_operations :: nat

text \<open>
  What a batch acts on: the project tree, the events handed to the notifier
  (oldest first) and the warnings logged.
\<close>

record world =
  tree :: files
  events :: "event list"
  warnings :: "warning list"

record batch_result =
  patch_id :: string
  all_success :: bool
  operations :: "op_result list"
  total :: nat
  succeeded :: nat
  failed :: nat

definition notify_orchestrator :: "event \<Rightarrow> world \<Rightarrow> world" where
  "notify_orchestrator ev w = w\<lparr>events := events w @ [ev]\<rparr>"

text \<open>
  The \<^verbatim>\<open>for\<close> loop of \<^verbatim>\<open>apply_batch\<close>.  An exception leaving
  \<^verbatim>\<open>apply_operation\<close> leaves the loop and the batch: nothing catches it.
\<close>

fun run_operations ::
  "manager \<Rightarrow> string \<Rightarrow> nat \<Rightarrow> nat \<Rightarrow> patch_operation list \<Rightarrow> world
     \<Rightarrow> (exn + op_result list) \<times> world" where
  "run_operations m pid n i [] w = (Inr [], w)"
| "run_operations m pid n i (operation # rest) w =
     (case apply_operation m (tree w) operation of
        Inl e \<Rightarrow> (Inl e, w)
      | Inr (result, fs') \<Rightarrow>
          let w1 = w\<lparr>tree := fs'\<rparr>;
              w2 = (if success result
                    then notify_orchestrator
                           \<lparr>ev_patch_id = pid, ev_file = op_file operation, ev_op = op operation,
                            ev_status = ''applied'', ev_task_id = taskId operation,
                            ev_ts_check_ok = res_ts_check_ok result,
                            ev_operation_index = i, ev_total_operations = n\<rparr> w1
                    else w1)
          in (case run_operations m pid n (i + 1) rest w2 of
                (Inl e, w') \<Rightarrow> (Inl e, w')
              | (Inr results, w') \<Rightarrow> (Inr (result # results), w')))"

definition apply_batch ::
  "manager \<Rightarrow> schema_file \<Rightarrow> patch_batch \<Rightarrow> world \<Rightarrow> (failure + batch_result) \<times> world" where
  "apply_batch m schema batch w =
     (case validate_against_task_schema m schema batch of
        Inl f \<Rightarrow> (Inl f, w)
      | Inr ws \<Rightarrow>
          let w0 = w\<lparr>warnings := warnings w @ ws\<rparr>;
              pid = (if truthy (orderId batch) then the (orderId batch) else generated_id m)
          in (case run_operations m pid (length (patches batch)) 0 (patches batch) w0 of
                (Inl e, w') \<Rightarrow> (Inl (Raised e), w')
              | (Inr results, w') \<Rightarrow>
                  (Inr \<lparr>patch_id = pid,
                        all_success = list_all success results,
                        operations = results,
                        total = length results,
                        succeeded = length (filter success results),
                        failed = length (filter (\<lambda>r. \<not> success r) results)\<rparr>, w')))"


section \<open>Notions used to state the properties\<close>

text \<open>
  A schema in the format of the schema file, \<^verbatim>\<open>{tasks: [{id, files, allowedOperations}]}\<close>,
  given by its tasks, and the value \<^verbatim>\<open>json.load\<close> returns for it.  \<open>find_task\<close>
  is the task a task id names: the first with that id.
\<close>

record task =
  task_id :: string
  files :: "path list"
  allowedOperations :: "string list"

definition task_dict :: "task \<Rightarrow> (string \<times> json) list" where
  "task_dict t =
     [(''id'', JStr (task_id t)),
      (''files'', JArr (map JStr (files t))),
      (''allowedOperations'', JArr (map JStr (allowedOperations t)))]"

definition schema_json :: "task list \<Rightarrow> json" where
  "schema_json tasks = JObj [(''tasks'', JArr (map (\<lambda>t. JObj (task_dict t)) tasks))]"

fun find_task :: "task list \<Rightarrow> string \<Rightarrow> task option" where
  "find_task [] tid = None"
| "find_task (t # ts) tid = (if task_id t = tid then Some t else find_task ts tid)"

text \<open>
  A loaded value has the shape of a schema when it is a dict whose \<^verbatim>\<open>tasks\<close>,
  if present, is a list of dicts, and the \<^verbatim>\<open>files\<close> and \<^verbatim>\<open>allowedOperations\<close> of
  every task, if present, are lists.  Any key may be missing, and a task may
  be the empty dict.
\<close>

definition is_array :: "json \<Rightarrow> bool" where
  "is_array v = (case v of JArr xs \<Rightarrow> True | _ \<Rightarrow> False)"

definition well_formed_task :: "json \<Rightarrow> bool" where
  "well_formed_task t =
     (case t of
        JObj d \<Rightarrow> is_array (dict_get d ''files'' (JArr []))
                  \<and> is_array (dict_get d ''allowedOperations'' (JArr []))
      | _ \<Rightarrow> False)"

definition well_formed_schema :: "json \<Rightarrow> bool" where
  "well_formed_schema s =
     (case s of
        JObj root \<Rightarrow>
          (case dict_get root ''tasks'' (JArr []) of
             JArr ts \<Rightarrow> list_all well_formed_task ts
           | _ \<Rightarrow> False)
      | _ \<Rightarrow> False)"

text \<open>
  The task of the schema a task id is found to name: the first task with
  that id, unless it is the empty dict, which the validator treats as no task.
\<close>

definition tasks_of :: "json \<Rightarrow> json list" where
  "tasks_of s =
     (case s of
        JObj root \<Rightarrow> (case dict_get root ''tasks'' (JArr []) of JArr ts \<Rightarrow> ts | _ \<Rightarrow> [])
      | _ \<Rightarrow> [])"

definition found_task :: "manager \<Rightarrow> json \<Rightarrow> string \<Rightarrow> (string \<times> json) list option" where
  "found_task m s tid =
     (case lookup_task m (tasks_of s) tid of
        Inr (Some d) \<Rightarrow> (if d \<noteq> [] then Some d else None)
      | _ \<Rightarrow> None)"

definition allow_list :: "(string \<times> json) list \<Rightarrow> string \<Rightarrow> json list" where
  "allow_list d k = (case dict_get d k (JArr []) of JArr xs \<Rightarrow> xs | _ \<Rightarrow> [])"

text \<open>
  An explicit allow-list mismatch of an operation against a schema: the
  operation carries a task id, the id is found to name a task, and the file is
  outside a non-empty \<^verbatim>\<open>files\<close> list or the operation kind is outside a
  non-empty \<^verbatim>\<open>allowedOperations\<close> list of that task.
\<close>

definition allow_list_mismatch :: "manager \<Rightarrow> json \<Rightarrow> patch_operation \<Rightarrow> bool" where
  "allow_list_mismatch m s operation =
     (truthy (taskId operation) \<and>
      (case found_task m s (the (taskId operation)) of
         None \<Rightarrow> False
       | Some d \<Rightarrow>
           (allow_list d ''files'' \<noteq> []
              \<and> JStr (op_file operation) \<notin> set (allow_list d ''files''))
           \<or> (allow_list d ''allowedOperations'' \<noteq> []
                \<and> JStr (op operation) \<notin> set (allow_list d ''allowedOperations''))))"

text \<open>
  The warnings of a validation that succeeds: one \<open>TaskNotFound\<close>, with the
  position of the operation in the batch, for every operation whose task id
  is not found to name a task, in the order of the batch.
\<close>

fun task_warnings :: "manager \<Rightarrow> json \<Rightarrow> nat \<Rightarrow> patch_operation list \<Rightarrow> warning list" where
  "task_warnings m s i [] = []"
| "task_warnings m s i (operation # rest) =
     (if truthy (taskId operation) \<and> found_task m s (the (taskId operation)) = None
      then [TaskNotFound (i + 1) (the (taskId operation))] else [])
     @ task_warnings m s (i + 1) rest"

text \<open>
  The events a finished batch has handed to the notifier, read off the
  operations and their results: one event with status \<open>applied\<close> for every
  operation whose result is a success, in the order of the batch.
\<close>

fun expected_events ::
  "string \<Rightarrow> nat \<Rightarrow> nat \<Rightarrow> patch_operation list \<Rightarrow> op_result list \<Rightarrow> event list" where
  "expected_events pid n i (operation # ops) (result # results) =
     (if success result
      then [\<lparr>ev_patch_id = pid, ev_file = op_file operation, ev_op = op operation,
             ev_status = ''applied'', ev_task_id = taskId operation,
             ev_ts_check_ok = res_ts_check_ok result,
             ev_operation_index = i, ev_total_operations = n\<rparr>]
      else [])
     @ expected_events pid n (i + 1) ops results"
| "expected_events pid n i ops results = []"

text \<open>
  The diff an operation computes on a tree: the unified diff between the
  lines of its target file as they stand and the lines its edit makes of
  them; \<open>None\<close> when the operation does not get that far.
\<close>

definition computed_diff :: "manager \<Rightarrow> files \<Rightarrow> patch_operation \<Rightarrow> string option" where
  "computed_diff m fs operation =
     (case fs (op_file operation) of
        None \<Rightarrow> None
      | Some original \<Rightarrow>
          (case get_content fs operation of
             Inl e \<Rightarrow> None
           | Inr content \<Rightarrow>
               (case edit_lines m fs operation content of
                  Inl e \<Rightarrow> None
                | Inr (modified_lines, d) \<Rightarrow>
                    Some (generate_unified_diff (udiff m) (op_file operation)
                            (readlines original) modified_lines))))"

text \<open>
  Concrete inputs for the examples: a manager whose diff library is replaced
  by a stand-in returning the two header names, whose type checker always
  ends the same way, and whose \<^verbatim>\<open>repr\<close> is a stand-in too; and an operation with inline content only.
\<close>

definition sample_manager :: "bool \<Rightarrow> proc \<Rightarrow> manager" where
  "sample_manager dry r =
     \<lparr>dry_run = dry, udiff = (\<lambda>a b x y. [a, b]), run_tsc = (\<lambda>p fs. r),
      generated_id = ''patch-1-0'', py_repr = (\<lambda>v. [])\<rparr>"

definition sample_operation :: "string \<Rightarrow> path \<Rightarrow> string \<Rightarrow> patch_operation" where
  "sample_operation kind p content =
     \<lparr>op = kind, op_file = p, start = None, end_line = None, line = None,
      block = Some content, blockFile = None, openSpace = False, taskId = None\<rparr>"

definition sample_batch :: "patch_operation list \<Rightarrow> patch_batch" where
  "sample_batch ops =
     \<lparr>orderId = Some ''order-1'', requester = ''agent'', reason = [], branch = [],
      patches = ops\<rparr>"

section \<open>Evaluation and auxiliary facts\<close>

lemmas eval_defs = apply_operation_def get_content_def truthy_def edit_lines_def
  append_op_def prepend_op_def normalized_lines_def replace_block_def insert_before_def
  insert_after_def terminate_nonempty_def preserve_indentation_def read_file_def
  write_file_def generate_unified_diff_def path_suffix_def final_name_def
  check_typescript_def sample_manager_def sample_operation_def sample_batch_def
  NL_def strip_def lstrip_def is_space_def endswith_nl_def
  slice_to_def slice_from_def slice_bound_def Let_def

lemmas batch_defs = apply_batch_def validate_against_task_schema_def notify_orchestrator_def

lemmas schema_defs = validate_operation_def py_iter_def py_str_def py_truthy_def py_contains_def
  rejected_by_def dict_get_def found_task_def tasks_of_def allow_list_def allow_list_mismatch_def
  well_formed_schema_def well_formed_task_def is_array_def task_dict_def schema_json_def

text \<open>Validation against a value that has the shape of a schema.\<close>

lemma lookup_task_well_formed:
  "list_all well_formed_task ts \<Longrightarrow>
     \<exists>r. lookup_task m ts tid = Inr r \<and> (\<forall>d. r = Some d \<longrightarrow> well_formed_task (JObj d))"
  by (induction ts) (auto simp: well_formed_task_def split: json.splits)

lemma rejected_by_array:
  "rejected_by (JArr xs) x = Inr (xs \<noteq> [] \<and> JStr x \<notin> set xs)"
  by (simp add: rejected_by_def py_truthy_def py_contains_def)

lemma validate_operation_well_formed:
  assumes "well_formed_schema s"
  shows "(allow_list_mismatch m s operation \<longrightarrow> (\<exists>v. validate_operation m s i operation = Inl v))
     \<and> (\<not> allow_list_mismatch m s operation \<longrightarrow>
          validate_operation m s i operation = Inr (task_warnings m s i [operation]))"
proof -
  from assms obtain root ts where s: "s = JObj root"
    and ts: "dict_get root ''tasks'' (JArr []) = JArr ts" and wf: "list_all well_formed_task ts"
    by (auto simp: well_formed_schema_def split: json.splits)
  have tasks: "tasks_of (JObj root) = ts" by (simp add: tasks_of_def ts)
  from lookup_task_well_formed [OF wf, of m "the (taskId operation)"] obtain r where
    r: "lookup_task m ts (the (taskId operation)) = Inr r"
    and rw: "\<forall>d. r = Some d \<longrightarrow> well_formed_task (JObj d)" by blast
  show ?thesis
  proof (cases r)
    case None
    with r show ?thesis
      by (simp add: validate_operation_def allow_list_mismatch_def found_task_def tasks s ts
            py_iter_def)
  next
    case (Some d)
    with rw obtain fs os where f: "dict_get d ''files'' (JArr []) = JArr fs"
      and o: "dict_get d ''allowedOperations'' (JArr []) = JArr os"
      by (auto simp: well_formed_task_def is_array_def split: json.splits)
    from r Some f o show ?thesis
      by (auto simp: validate_operation_def allow_list_mismatch_def found_task_def tasks s ts
            py_iter_def rejected_by_array allow_list_def split: bool.splits)
  qed
qed

lemma validate_operations_well_formed:
  assumes "well_formed_schema s"
  shows "((\<exists>ws. validate_operations m s i ops = Inr ws)
            = (\<forall>operation \<in> set ops. \<not> allow_list_mismatch m s operation))
     \<and> (\<forall>ws. validate_operations m s i ops = Inr ws \<longrightarrow> ws = task_warnings m s i ops)"
proof (induction ops arbitrary: i)
  case Nil
  show ?case by simp
next
  case (Cons operation rest)
  show ?case
    using validate_operation_well_formed [OF assms, of m operation i] Cons.IH [of "i + 1"]
    by (cases "allow_list_mismatch m s operation";
        cases "validate_operations m s (i + 1) rest") auto
qed

text \<open>A schema given by its tasks has the shape of a schema, and its lookup is \<open>find_task\<close>.\<close>

lemma well_formed_schema_json: "well_formed_schema (schema_json tasks)"
  by (induction tasks)
     (simp_all add: well_formed_schema_def schema_json_def dict_get_def well_formed_task_def
        is_array_def task_dict_def)

lemma lookup_task_records:
  "lookup_task m (map (\<lambda>t. JObj (task_dict t)) tasks) tid
     = Inr (map_option task_dict (find_task tasks tid))"
  by (induction tasks) (simp_all add: task_dict_def dict_get_def py_str_def)

lemma record_mismatch:
  assumes "find_task tasks tid = Some t" and "files t \<noteq> []"
    and "taskId operation = Some tid" and "tid \<noteq> []"
    and "op_file operation \<notin> set (files t)"
  shows "allow_list_mismatch m (schema_json tasks) operation"
proof -
  have "found_task m (schema_json tasks) tid = Some (task_dict t)"
    using assms(1) lookup_task_records [of m tasks tid]
    by (simp add: found_task_def tasks_of_def schema_json_def dict_get_def)
       (simp add: task_dict_def)
  moreover have "allow_list (task_dict t) ''files'' = map JStr (files t)"
    by (simp add: allow_list_def task_dict_def dict_get_def)
  ultimately show ?thesis
    using assms by (auto simp: allow_list_mismatch_def truthy_def)
qed

text \<open>The loop over the operations neither reads nor writes the logged warnings.\<close>

lemma run_operations_warnings:
  "run_operations m pid n i ops (w\<lparr>warnings := x\<rparr>) =
     (case run_operations m pid n i ops w of (r, w') \<Rightarrow> (r, w'\<lparr>warnings := x\<rparr>))"
proof (induction ops arbitrary: i w)
  case Nil
  show ?case by simp
next
  case (Cons operation rest)
  show ?case
  proof (cases "apply_operation m (tree w) operation")
    case (Inl e)
    then show ?thesis by simp
  next
    case (Inr p)
    obtain result fs' where p: "p = (result, fs')" by (cases p)
    define w2 where "w2 =
      (if success result
       then notify_orchestrator
              \<lparr>ev_patch_id = pid, ev_file = op_file operation, ev_op = op operation,
               ev_status = ''applied'', ev_task_id = taskId operation,
               ev_ts_check_ok = res_ts_check_ok result,
               ev_operation_index = i, ev_total_operations = n\<rparr> (w\<lparr>tree := fs'\<rparr>)
       else w\<lparr>tree := fs'\<rparr>)"
    have a: "run_operations m pid n i (operation # rest) w =
        (case run_operations m pid n (Suc i) rest w2 of
           (Inl e, w') \<Rightarrow> (Inl e, w')
         | (Inr results, w') \<Rightarrow> (Inr (result # results), w'))"
      using Inr p by (simp add: w2_def)
    have b: "run_operations m pid n i (operation # rest) (w\<lparr>warnings := x\<rparr>) =
        (case run_operations m pid n (Suc i) rest (w2\<lparr>warnings := x\<rparr>) of
           (Inl e, w') \<Rightarrow> (Inl e, w')
         | (Inr results, w') \<Rightarrow> (Inr (result # results), w'))"
      using Inr p by (cases w) (simp add: w2_def notify_orchestrator_def)
    show ?thesis
      by (simp only: a b Cons.IH) (simp split: prod.splits sum.splits)
  qed
qed

text \<open>The events of a loop that ran to its end.\<close>

lemma run_operations_events:
  "run_operations m pid n i ops w = (Inr results, w') \<Longrightarrow>
     length results = length ops \<and> events w' = events w @ expected_events pid n i ops results"
proof (induction ops arbitrary: i w results w')
  case Nil
  then show ?case by simp
next
  case (Cons operation rest)
  from Cons.prems obtain result fs' where
    ap: "apply_operation m (tree w) operation = Inr (result, fs')"
    by (cases "apply_operation m (tree w) operation") auto
  define w2 where "w2 =
      (if success result
       then notify_orchestrator
              \<lparr>ev_patch_id = pid, ev_file = op_file operation, ev_op = op operation,
               ev_status = ''applied'', ev_task_id = taskId operation,
               ev_ts_check_ok = res_ts_check_ok result,
               ev_operation_index = i, ev_total_operations = n\<rparr> (w\<lparr>tree := fs'\<rparr>)
       else w\<lparr>tree := fs'\<rparr>)"
  from Cons.prems ap obtain rs where
    rs: "run_operations m pid n (i + 1) rest w2 = (Inr rs, w')"
    and res: "results = result # rs"
    by (cases "run_operations m pid n (i + 1) rest w2")
       (auto simp: w2_def split: sum.splits if_splits)
  from Cons.IH [OF rs] have ih: "length rs = length rest"
    "events w' = events w2 @ expected_events pid n (i + 1) rest rs" by simp_all
  have "events w2 = events w @ (if success result
      then [\<lparr>ev_patch_id = pid, ev_file = op_file operation, ev_op = op operation,
             ev_status = ''applied'', ev_task_id = taskId operation,
             ev_ts_check_ok = res_ts_check_ok result,
             ev_operation_index = i, ev_total_operations = n\<rparr>]
      else [])"
    by (simp add: w2_def notify_orchestrator_def)
  with ih res show ?case by simp
qed


section \<open>Properties of the line editor\<close>

text \<open>
  The length of the buffer \<^verbatim>\<open>replace_block\<close> returns, in terms of the pieces
  of \<^verbatim>\<open>content.split('\n')\<close>: a line read from a file has its only newline at
  the end, so copying its indentation adds no piece.
\<close>

lemma length_split_nl: "length (split_nl s) = Suc (length (filter (\<lambda>c. c = NL) s))"
  by (induction s) (auto split: list.splits)

lemma split_nl_no_nl: "x \<in> set (split_nl s) \<Longrightarrow> NL \<notin> set x"
  by (induction s arbitrary: x) (auto split: list.splits if_splits)

lemma count_join_nl:
  "xs \<noteq> [] \<Longrightarrow> length (filter (\<lambda>c. c = NL) (join_nl xs))
     = length (filter (\<lambda>c. c = NL) (concat xs)) + length xs - 1"
  by (induction xs rule: join_nl.induct) auto

lemma readlines_shape:
  "l \<in> set (readlines t) \<Longrightarrow> l \<noteq> [] \<and> NL \<notin> set (butlast l)"
  by (induction t arbitrary: l) (auto split: list.splits if_splits)


lemma indent_no_nl:
  assumes "NL \<notin> set (butlast l)" and "strip l \<noteq> []"
  shows "NL \<notin> set (take (length l - length (lstrip l)) l)"
proof -
  have d: "dropWhile is_space l \<noteq> []"
  proof
    assume "dropWhile is_space l = []"
    then have "strip l = []" by (simp add: strip_def del: dropWhile_eq_Nil_conv)
    with assms(2) show False by simp
  qed
  have len: "length l - length (dropWhile is_space l) = length (takeWhile is_space l)"
    using takeWhile_dropWhile_id [of is_space l]
    by (metis add_diff_cancel_right' length_append)
  have tk: "take (length (takeWhile is_space l)) l = takeWhile is_space l"
    by (metis append_eq_conv_conj takeWhile_dropWhile_id)
  have "butlast (takeWhile is_space l @ dropWhile is_space l)
          = takeWhile is_space l @ butlast (dropWhile is_space l)"
    using d by (simp only: butlast_append if_False)
  then have "butlast l = takeWhile is_space l @ butlast (dropWhile is_space l)"
    by (simp only: takeWhile_dropWhile_id)
  then have "set (takeWhile is_space l) \<subseteq> set (butlast l)"
    by (metis Un_upper1 set_append)
  with assms(1) show ?thesis by (auto simp: lstrip_def len tk)
qed

lemma preserve_indentation_count:
  assumes "NL \<notin> set (butlast l)"
  shows "length (split_nl (preserve_indentation l c)) = length (split_nl c)"
proof (cases "strip l = []")
  case True
  then show ?thesis by (simp add: preserve_indentation_def)
next
  case False
  have "length (split_nl c) \<noteq> 0" by (simp add: length_split_nl)
  then obtain h rest where ps: "split_nl c = h # rest"
    by (cases "split_nl c") simp_all
  define ind where "ind = take (length l - length (lstrip l)) l"
  have i: "NL \<notin> set ind" unfolding ind_def by (rule indent_no_nl [OF assms False])
  have h: "NL \<notin> set (lstrip h)"
    using split_nl_no_nl [of h c] ps set_dropWhileD [of NL is_space h] by (auto simp: lstrip_def)
  have r: "\<forall>x \<in> set rest. NL \<notin> set x"
    using split_nl_no_nl [of _ c] ps by auto
  then have cr: "filter (\<lambda>c. c = NL) (concat rest) = []"
    by (induction rest) (auto simp: filter_empty_conv)
  have pi: "preserve_indentation l c = join_nl ((ind @ lstrip h) # rest)"
    using False ps by (simp add: preserve_indentation_def Let_def ind_def)
  have "length (filter (\<lambda>c. c = NL) (preserve_indentation l c)) = length rest"
    using i h cr count_join_nl [of "(ind @ lstrip h) # rest"]
    by (auto simp: pi filter_empty_conv)
  then show ?thesis by (simp add: length_split_nl ps)
qed

lemma replace_block_length:
  assumes "fs p = Some t" and "1 \<le> s" and "s \<le> e" and "e \<le> int (length (readlines t))"
  shows "\<exists>modified_lines df. replace_block d fs p s e c pi = Inr (modified_lines, df)
     \<and> int (length modified_lines)
         = int (length (readlines t)) - (e - s + 1) + int (length (split_nl c))"
proof -
  let ?lines = "readlines t"
  have nth: "NL \<notin> set (butlast (?lines ! nat (s - 1)))"
    using assms readlines_shape [of "?lines ! nat (s - 1)" t] by simp
  have cnt: "length (split_nl (preserve_indentation (?lines ! nat (s - 1)) c)) = length (split_nl c)"
    by (rule preserve_indentation_count [OF nth])
  show ?thesis
    using assms cnt
    by (auto simp: replace_block_def read_file_def Let_def slice_to_def slice_from_def
          slice_bound_def)
qed

text \<open>\<^verbatim>\<open>replace_block\<close> raises exactly if \<open>start < 1\<close> or \<open>end\<close> exceeds the line count.\<close>

lemma replace_block_fails_iff:
  "fs p = Some t \<Longrightarrow>
     (\<exists>x. replace_block d fs p s e c pi = Inl x) = (s < 1 \<or> int (length (readlines t)) < e)"
  by (auto simp: replace_block_def read_file_def Let_def)

text \<open>
  C2.  For a file of \<open>N\<close> lines, \<^verbatim>\<open>replace_block(start, end, content)\<close> with
  \<open>1 \<le> start \<le> end \<le> N\<close> should yield \<open>N - (end - start + 1) + lines(content)\<close>
  lines, the lines of the content counted as the lines of the file are.  At the
  file \<open>a\<close>, \<open>b\<close> (two lines), replacing line 2 by the one-line content \<open>x\<close> with
  its newline, the buffer has three lines, not \<open>2 - 1 + 1 = 2\<close>: the empty piece
  after the final newline becomes a blank line.  (The two insert operations
  and \<^verbatim>\<open>append\<close>, \<^verbatim>\<open>prepend\<close> leave an empty piece empty.)
\<close>

theorem replace_block_trailing_newline_adds_line:
  "replace_block d [''f.py'' \<mapsto> ''a\<newline>b\<newline>''] ''f.py'' 2 2 ''x\<newline>'' True
     = Inr ([''a\<newline>'', ''x\<newline>'', ''\<newline>''],
            generate_unified_diff d ''f.py'' [''a\<newline>'', ''b\<newline>'']
              [''a\<newline>'', ''x\<newline>'', ''\<newline>''])
   \<and> length (readlines ''a\<newline>b\<newline>'') = 2
   \<and> length (readlines ''x\<newline>'') = 1"
  by (simp add: replace_block_def read_file_def preserve_indentation_def NL_def strip_def
        lstrip_def is_space_def endswith_nl_def slice_to_def slice_from_def slice_bound_def Let_def)

text \<open>
  C3.  \<^verbatim>\<open>replace_block\<close> should fail with a range error whenever
  \<open>1 \<le> start \<le> end \<le> lineCount\<close> is violated, in particular whenever
  \<open>start > end\<close>.  At a file of three lines with \<open>start = 3\<close> and \<open>end = 1\<close> it
  returns a buffer instead, in which lines 2 and 3 of the file occur once more
  after the new content.
\<close>

theorem replace_block_accepts_reversed_range:
  "replace_block d [''f.py'' \<mapsto> ''a\<newline>b\<newline>c\<newline>''] ''f.py'' 3 1 ''x'' True
     = Inr ([''a\<newline>'', ''b\<newline>'', ''x'', ''b\<newline>'', ''c\<newline>''],
            generate_unified_diff d ''f.py'' [''a\<newline>'', ''b\<newline>'', ''c\<newline>'']
              [''a\<newline>'', ''b\<newline>'', ''x'', ''b\<newline>'', ''c\<newline>''])"
  by (simp add: replace_block_def read_file_def preserve_indentation_def NL_def strip_def
        lstrip_def is_space_def endswith_nl_def slice_to_def slice_from_def slice_bound_def Let_def)

section \<open>Properties of the type-check adapter\<close>

text \<open>
  C4, as claimed: when the checker invocation times out, the recorded
  type-check outcome is not-applicable.  It is not: appending to a \<^verbatim>\<open>.ts\<close> file
  while the checker times out records \<open>Some False\<close>, which is fail.
\<close>

theorem timeout_is_recorded_as_fail:
  "map_sum id fst
     (apply_operation (sample_manager False TimeoutExpired) [''a.ts'' \<mapsto> ''x\<newline>'']
        (sample_operation ''append'' ''a.ts'' ''y\<newline>''))
   = Inr \<lparr>success = True, res_file = ''a.ts'', res_op = ''append'',
          res_diff = Some ''a.ts\<newline>a.ts'', res_error = None,
          res_ts_check_ok = Some False\<rparr>"
  by (simp add: eval_defs)

text \<open>
  C4, amended: for every operation that succeeds on a file with suffix
  \<^verbatim>\<open>.ts\<close> or \<^verbatim>\<open>.tsx\<close>, the recorded outcome is not-applicable (\<open>None\<close>) when the
  checker binary is absent, fail (\<open>Some False\<close>) when the invocation times out
  or breaks otherwise, and the comparison of the exit status with 0 when the
  checker ran.
\<close>

theorem recorded_type_check_outcome:
  "apply_operation m fs operation = Inr (r, fs') \<Longrightarrow> success r \<Longrightarrow>
   path_suffix (op_file operation) \<in> {''.ts'', ''.tsx''} \<Longrightarrow>
   res_ts_check_ok r =
     (case run_tsc m (op_file operation) fs' of
        Completed returncode err \<Rightarrow> Some (returncode = 0)
      | TimeoutExpired \<Rightarrow> Some False
      | CommandNotFound \<Rightarrow> None
      | OtherFailure \<Rightarrow> Some False)"
  by (auto simp: apply_operation_def check_typescript_def Let_def
           split: if_splits sum.splits prod.splits proc.splits)

theorem recorded_type_check_outcome_witness:
  "apply_operation (sample_manager False CommandNotFound) [''a.ts'' \<mapsto> ''x\<newline>'']
       (sample_operation ''append'' ''a.ts'' ''y\<newline>'')
   = Inr (\<lparr>success = True, res_file = ''a.ts'', res_op = ''append'',
           res_diff = Some ''a.ts\<newline>a.ts'', res_error = None, res_ts_check_ok = None\<rparr>,
          [''a.ts'' \<mapsto> ''x\<newline>y\<newline>''])
   \<and> path_suffix (op_file (sample_operation ''append'' ''a.ts'' ''y\<newline>'')) \<in> {''.ts'', ''.tsx''}
   \<and> run_tsc (sample_manager False CommandNotFound) ''a.ts'' [''a.ts'' \<mapsto> ''x\<newline>y\<newline>'']
       = CommandNotFound"
proof -
  let ?m = "sample_manager False CommandNotFound"
  let ?o = "sample_operation ''append'' ''a.ts'' ''y\<newline>''"
  let ?r = "\<lparr>success = True, res_file = ''a.ts'', res_op = ''append'',
           res_diff = Some ''a.ts\<newline>a.ts'', res_error = None, res_ts_check_ok = None\<rparr>"
  have h1: "apply_operation ?m [''a.ts'' \<mapsto> ''x\<newline>''] ?o
              = Inr (?r, [''a.ts'' \<mapsto> ''x\<newline>y\<newline>''])"
    by (simp add: eval_defs)
  have h2: "success ?r" by simp
  have h3: "path_suffix (op_file ?o) \<in> {''.ts'', ''.tsx''}"
    by (simp add: eval_defs)
  show ?thesis
    using h1 h3 recorded_type_check_outcome [OF h1 h2 h3]
    by (simp add: sample_manager_def)
qed


section \<open>Properties of the schema validator\<close>

text \<open>
  C8.  With a schema present (a loaded value that has the shape of a schema),
  validation succeeds exactly if no operation of the batch has an explicit
  allow-list mismatch, and when it succeeds the warnings it produces are one
  \<open>TaskNotFound\<close> for every operation whose task id is not found in the
  schema, and nothing else.  So an operation whose task id is not found never
  makes validation fail (\<open>allow_list_mismatch\<close> is false for it) and always
  produces its warning.
\<close>

theorem unknown_task_is_only_warned:
  assumes "well_formed_schema s"
  shows "((\<exists>ws. validate_against_task_schema m (Loaded s) batch = Inr ws)
            = (\<forall>operation \<in> set (patches batch). \<not> allow_list_mismatch m s operation))
     \<and> (\<forall>ws. validate_against_task_schema m (Loaded s) batch = Inr ws
            \<longrightarrow> ws = task_warnings m s 0 (patches batch))"
  using validate_operations_well_formed [OF assms, of m 0 "patches batch"]
  by (auto simp: validate_against_task_schema_def split: sum.splits)

theorem unknown_task_is_only_warned_witness:
  "well_formed_schema
     (JObj [(''tasks'', JArr [JObj [(''id'', JStr ''1''), (''files'', JArr [JStr ''a.py''])],
                             JObj []])])
   \<and> \<not> allow_list_mismatch (sample_manager False CommandNotFound)
         (JObj [(''tasks'', JArr [JObj [(''id'', JStr ''1''), (''files'', JArr [JStr ''a.py''])],
                                 JObj []])])
         ((sample_operation ''append'' ''b.py'' ''y\<newline>'')\<lparr>taskId := Some ''9''\<rparr>)
   \<and> \<not> allow_list_mismatch (sample_manager False CommandNotFound)
         (JObj [(''tasks'', JArr [JObj [(''id'', JStr ''1''), (''files'', JArr [JStr ''a.py''])],
                                 JObj []])])
         ((sample_operation ''append'' ''b.py'' ''y\<newline>'')\<lparr>taskId := Some ''None''\<rparr>)
   \<and> \<not> allow_list_mismatch (sample_manager False CommandNotFound)
         (JObj [(''tasks'', JArr [JObj [(''id'', JStr ''1''), (''files'', JArr [JStr ''a.py''])],
                                 JObj []])])
         ((sample_operation ''append'' ''a.py'' ''y\<newline>'')\<lparr>taskId := Some ''1''\<rparr>)
   \<and> validate_against_task_schema (sample_manager False CommandNotFound)
         (Loaded (JObj [(''tasks'', JArr [JObj [(''id'', JStr ''1''),
                                               (''files'', JArr [JStr ''a.py''])],
                                         JObj []])]))
         (sample_batch
            [(sample_operation ''append'' ''b.py'' ''y\<newline>'')\<lparr>taskId := Some ''9''\<rparr>,
             (sample_operation ''append'' ''b.py'' ''y\<newline>'')\<lparr>taskId := Some ''None''\<rparr>,
             (sample_operation ''append'' ''a.py'' ''y\<newline>'')\<lparr>taskId := Some ''1''\<rparr>])
       = Inr [TaskNotFound 1 ''9'', TaskNotFound 2 ''None'']"
proof -
  let ?m = "sample_manager False CommandNotFound"
  let ?s = "JObj [(''tasks'', JArr [JObj [(''id'', JStr ''1''), (''files'', JArr [JStr ''a.py''])],
                                  JObj []])]"
  let ?o1 = "(sample_operation ''append'' ''b.py'' ''y\<newline>'')\<lparr>taskId := Some ''9''\<rparr>"
  let ?o2 = "(sample_operation ''append'' ''b.py'' ''y\<newline>'')\<lparr>taskId := Some ''None''\<rparr>"
  let ?o3 = "(sample_operation ''append'' ''a.py'' ''y\<newline>'')\<lparr>taskId := Some ''1''\<rparr>"
  let ?b = "sample_batch [?o1, ?o2, ?o3]"
  have wf: "well_formed_schema ?s"
    by (simp add: schema_defs)
  have m1: "\<not> allow_list_mismatch ?m ?s ?o1" and m2: "\<not> allow_list_mismatch ?m ?s ?o2"
    and m3: "\<not> allow_list_mismatch ?m ?s ?o3"
    by (simp_all add: schema_defs sample_operation_def truthy_def)
  then have h: "\<forall>operation \<in> set (patches ?b). \<not> allow_list_mismatch ?m ?s operation"
    by (simp add: sample_batch_def)
  from unknown_task_is_only_warned [OF wf, of ?m ?b] h
  obtain ws where ws: "validate_against_task_schema ?m (Loaded ?s) ?b = Inr ws"
    and eq: "ws = task_warnings ?m ?s 0 (patches ?b)"
    by blast
  have "task_warnings ?m ?s 0 (patches ?b) = [TaskNotFound 1 ''9'', TaskNotFound 2 ''None'']"
    by (simp add: schema_defs sample_batch_def sample_operation_def truthy_def)
  with ws eq wf m1 m2 m3 show ?thesis by simp
qed

text \<open>
  C6.  With a schema present (in the format of the schema file, given by its
  tasks), let the task id \<open>tid\<close> of an operation of the batch name the task
  \<open>t\<close> of the schema (the lookup by id yields \<open>t\<close>; a task id is a non-empty
  string), let \<open>t\<close> have a non-empty list of allowed files, and let the file
  of the operation be outside it.  Then the batch ends with a validation
  failure and the world is the one it started from: no file is written and no
  operation runs.
\<close>

theorem schema_mismatch_aborts_batch:
  assumes "find_task tasks tid = Some t" and "files t \<noteq> []"
    and "operation \<in> set (patches batch)" and "taskId operation = Some tid" and "tid \<noteq> []"
    and "op_file operation \<notin> set (files t)"
  shows "\<exists>v. apply_batch m (Loaded (schema_json tasks)) batch w = (Inl (ValidationFailed v), w)"
proof -
  have "allow_list_mismatch m (schema_json tasks) operation"
    using assms(1,2,4,5,6) by (rule record_mismatch)
  then have "\<not> (\<exists>ws. validate_operations m (schema_json tasks) 0 (patches batch) = Inr ws)"
    using assms(3)
      validate_operations_well_formed [OF well_formed_schema_json, of m tasks 0 "patches batch"]
    by blast
  then obtain v where "validate_operations m (schema_json tasks) 0 (patches batch) = Inl v"
    by (cases "validate_operations m (schema_json tasks) 0 (patches batch)") auto
  then show ?thesis
    by (simp add: apply_batch_def validate_against_task_schema_def)
qed

theorem schema_mismatch_aborts_batch_witness:
  "apply_batch (sample_manager False CommandNotFound)
     (Loaded (schema_json [\<lparr>task_id = ''1'', files = [''a.py''], allowedOperations = []\<rparr>]))
     (sample_batch [sample_operation ''append'' ''a.py'' ''y\<newline>'',
                    (sample_operation ''append'' ''b.py'' ''y\<newline>'')\<lparr>taskId := Some ''1''\<rparr>])
     \<lparr>tree = [''a.py'' \<mapsto> ''x\<newline>'', ''b.py'' \<mapsto> ''x\<newline>''], events = [], warnings = []\<rparr>
   = (Inl (ValidationFailed (FileNotAllowed 2 ''b.py'' ''1'')),
      \<lparr>tree = [''a.py'' \<mapsto> ''x\<newline>'', ''b.py'' \<mapsto> ''x\<newline>''], events = [], warnings = []\<rparr>)"
proof -
  let ?t = "\<lparr>task_id = ''1'', files = [''a.py''], allowedOperations = []\<rparr>"
  let ?o = "(sample_operation ''append'' ''b.py'' ''y\<newline>'')\<lparr>taskId := Some ''1''\<rparr>"
  let ?b = "sample_batch [sample_operation ''append'' ''a.py'' ''y\<newline>'', ?o]"
  let ?w = "\<lparr>tree = [''a.py'' \<mapsto> ''x\<newline>'', ''b.py'' \<mapsto> ''x\<newline>''], events = [], warnings = []\<rparr>"
  have h1: "find_task [?t] ''1'' = Some ?t" by simp
  have h2: "files ?t \<noteq> []" by simp
  have h3: "?o \<in> set (patches ?b)" by (simp add: sample_batch_def)
  have h4: "taskId ?o = Some ''1''" by simp
  have h5: "''1'' \<noteq> []" by simp
  have h6: "op_file ?o \<notin> set (files ?t)" by (simp add: sample_operation_def)
  from schema_mismatch_aborts_batch [OF h1 h2 h3 h4 h5 h6, of "sample_manager False CommandNotFound" ?w]
  obtain v where v: "apply_batch (sample_manager False CommandNotFound)
                       (Loaded (schema_json [?t])) ?b ?w = (Inl (ValidationFailed v), ?w)" by blast
  then have "v = FileNotAllowed 2 ''b.py'' ''1''"
    by (auto simp: apply_batch_def validate_against_task_schema_def sample_batch_def
          sample_operation_def truthy_def schema_defs numeral_2_eq_2 split: if_splits)
  with v show ?thesis by simp
qed

text \<open>
  C10, as claimed: a schema file that exists but holds no parseable JSON never
  fails validation.  It does when the file cannot even be decoded as text: the
  load then raises \<^verbatim>\<open>UnicodeDecodeError\<close>, which is not the swallowed
  \<^verbatim>\<open>JSONDecodeError\<close>, and the batch ends with a validation failure before its
  one valid operation runs; with no schema file the same batch succeeds.
\<close>

theorem undecodable_schema_aborts_batch:
  "apply_batch (sample_manager False CommandNotFound) (LoadRaises UnicodeDecodeError)
     (sample_batch [sample_operation ''append'' ''b.py'' ''y\<newline>''])
     \<lparr>tree = [''b.py'' \<mapsto> ''x\<newline>''], events = [], warnings = []\<rparr>
   = (Inl (ValidationFailed (LoadFailed UnicodeDecodeError)),
      \<lparr>tree = [''b.py'' \<mapsto> ''x\<newline>''], events = [], warnings = []\<rparr>)
   \<and> apply_batch (sample_manager False CommandNotFound) NoSchemaFile
     (sample_batch [sample_operation ''append'' ''b.py'' ''y\<newline>''])
     \<lparr>tree = [''b.py'' \<mapsto> ''x\<newline>''], events = [], warnings = []\<rparr>
   = (Inr \<lparr>patch_id = ''order-1'', all_success = True,
           operations = [\<lparr>success = True, res_file = ''b.py'', res_op = ''append'',
                          res_diff = Some ''b.py\<newline>b.py'', res_error = None,
                          res_ts_check_ok = None\<rparr>],
           total = 1, succeeded = 1, failed = 0\<rparr>,
      \<lparr>tree = [''b.py'' \<mapsto> ''x\<newline>y\<newline>''],
       events = [\<lparr>ev_patch_id = ''order-1'', ev_file = ''b.py'', ev_op = ''append'',
                  ev_status = ''applied'', ev_task_id = None, ev_ts_check_ok = None,
                  ev_operation_index = 0, ev_total_operations = 1\<rparr>],
       warnings = []\<rparr>)"
  by (simp add: batch_defs eval_defs)

text \<open>
  C10, amended: a schema file whose load raises \<^verbatim>\<open>JSONDecodeError\<close> (text that
  is not JSON) does not fail validation: the batch gives the same outcome, the
  same files and the same events as with no schema file at all, and the only
  difference is one logged warning.  A schema file whose load raises
  \<^verbatim>\<open>UnicodeDecodeError\<close> or any other exception fails validation, and the batch
  ends before any operation runs.
\<close>

theorem invalid_json_schema_is_ignored:
  "fst (apply_batch m (LoadRaises JSONDecodeError) batch w)
       = fst (apply_batch m NoSchemaFile batch w)
   \<and> tree (snd (apply_batch m (LoadRaises JSONDecodeError) batch w))
       = tree (snd (apply_batch m NoSchemaFile batch w))
   \<and> events (snd (apply_batch m (LoadRaises JSONDecodeError) batch w))
       = events (snd (apply_batch m NoSchemaFile batch w))
   \<and> warnings (snd (apply_batch m (LoadRaises JSONDecodeError) batch w))
       = warnings w @ [InvalidJsonInSchema]
   \<and> warnings (snd (apply_batch m NoSchemaFile batch w)) = warnings w
   \<and> apply_batch m (LoadRaises UnicodeDecodeError) batch w
       = (Inl (ValidationFailed (LoadFailed UnicodeDecodeError)), w)
   \<and> apply_batch m (LoadRaises OtherLoadError) batch w
       = (Inl (ValidationFailed (LoadFailed OtherLoadError)), w)"
proof -
  define pid where "pid = (if truthy (orderId batch) then the (orderId batch) else generated_id m)"
  obtain r w' where run:
    "run_operations m pid (length (patches batch)) 0 (patches batch) w = (r, w')"
    by (cases "run_operations m pid (length (patches batch)) 0 (patches batch) w")
  have keep: "warnings w' = warnings w"
    using run_operations_warnings [where m = m and pid = pid and n = "length (patches batch)"
        and i = 0 and ops = "patches batch" and w = w and x = "warnings w"] run
    by (cases w') (auto dest: arg_cong [where f = "\<lambda>p. warnings (snd p)"])
  show ?thesis
    using run keep run_operations_warnings [where m = m and pid = pid
        and n = "length (patches batch)" and i = 0 and ops = "patches batch" and w = w
        and x = "warnings w @ [InvalidJsonInSchema]"]
    by (cases r) (simp_all add: apply_batch_def validate_against_task_schema_def
          pid_def [symmetric] Let_def)
qed

section \<open>Properties of the batch orchestrator\<close>

text \<open>
  C1.  A missing target file, or an operation with neither inline content nor
  a block file, should fail that operation only, the later operations of the
  batch still running.  In both cases the exception leaves
  \<^verbatim>\<open>apply_operation\<close> and \<^verbatim>\<open>apply_batch\<close>: the batch returns no result at all, and
  the second operation, a valid append to \<^verbatim>\<open>b.py\<close>, never runs (\<^verbatim>\<open>b.py\<close> keeps
  its text and no event is sent).
\<close>

theorem missing_file_aborts_batch:
  "apply_batch (sample_manager False CommandNotFound) NoSchemaFile
     (sample_batch [sample_operation ''append'' ''missing.py'' ''y\<newline>'',
                    sample_operation ''append'' ''b.py'' ''y\<newline>''])
     \<lparr>tree = [''b.py'' \<mapsto> ''x\<newline>''], events = [], warnings = []\<rparr>
   = (Inl (Raised (FileNotFoundError ''missing.py'')),
      \<lparr>tree = [''b.py'' \<mapsto> ''x\<newline>''], events = [], warnings = []\<rparr>)
   \<and> apply_batch (sample_manager False CommandNotFound) NoSchemaFile
     (sample_batch [(sample_operation ''append'' ''b.py'' [])\<lparr>block := None\<rparr>,
                    sample_operation ''append'' ''b.py'' ''y\<newline>''])
     \<lparr>tree = [''b.py'' \<mapsto> ''x\<newline>''], events = [], warnings = []\<rparr>
   = (Inl (Raised ContentError),
      \<lparr>tree = [''b.py'' \<mapsto> ''x\<newline>''], events = [], warnings = []\<rparr>)"
  by (simp add: batch_defs eval_defs)

text \<open>
  C5, as claimed: one event per completed operation, failed ones included.
  A batch of one operation that fails (a \<^verbatim>\<open>replace-block\<close> of lines 5 to 5 in
  a file of one line) completes with one result and sends no event.
\<close>

theorem failed_operation_sends_no_event:
  "apply_batch (sample_manager False CommandNotFound) NoSchemaFile
     (sample_batch [(sample_operation ''replace-block'' ''b.py'' ''y\<newline>'')
                      \<lparr>start := Some 5, end_line := Some 5\<rparr>])
     \<lparr>tree = [''b.py'' \<mapsto> ''x\<newline>''], events = [], warnings = []\<rparr>
   = (Inr \<lparr>patch_id = ''order-1'', all_success = False,
           operations = [\<lparr>success = False, res_file = ''b.py'', res_op = ''replace-block'',
                          res_diff = None, res_error = Some (RangeError 5 5 1),
                          res_ts_check_ok = Some False\<rparr>],
           total = 1, succeeded = 0, failed = 1\<rparr>,
      \<lparr>tree = [''b.py'' \<mapsto> ''x\<newline>''], events = [], warnings = []\<rparr>)"
  by (simp add: batch_defs eval_defs)

text \<open>
  C5, amended: a batch that runs to its end has one result per operation and
  has sent exactly one event for every operation that succeeded, in the order
  of the batch, carrying the batch id, the file, the operation kind and the
  status \<open>applied\<close>; a failed operation sends none.
\<close>

theorem one_event_per_successful_operation:
  assumes "apply_batch m schema batch w = (Inr br, w')"
  shows "length (operations br) = length (patches batch)
     \<and> events w' = events w @ expected_events (patch_id br) (length (patches batch)) 0
                                 (patches batch) (operations br)"
proof -
  define pid where "pid = (if truthy (orderId batch) then the (orderId batch) else generated_id m)"
  from assms obtain ws where ws: "validate_against_task_schema m schema batch = Inr ws"
    by (cases "validate_against_task_schema m schema batch") (auto simp: apply_batch_def)
  from assms ws obtain rs where
    run: "run_operations m pid (length (patches batch)) 0 (patches batch)
            (w\<lparr>warnings := warnings w @ ws\<rparr>) = (Inr rs, w')"
    and br: "operations br = rs" "patch_id br = pid"
    by (cases "run_operations m pid (length (patches batch)) 0 (patches batch)
            (w\<lparr>warnings := warnings w @ ws\<rparr>)")
       (auto simp: apply_batch_def Let_def pid_def split: sum.splits)
  from run_operations_events [OF run] br show ?thesis by simp
qed

theorem one_event_per_successful_operation_witness:
  "apply_batch (sample_manager False CommandNotFound) NoSchemaFile
     (sample_batch [(sample_operation ''replace-block'' ''b.py'' ''y\<newline>'')
                      \<lparr>start := Some 5, end_line := Some 5\<rparr>,
                    sample_operation ''append'' ''b.py'' ''y\<newline>''])
     \<lparr>tree = [''b.py'' \<mapsto> ''x\<newline>''], events = [], warnings = []\<rparr>
   = (Inr \<lparr>patch_id = ''order-1'', all_success = False,
           operations = [\<lparr>success = False, res_file = ''b.py'', res_op = ''replace-block'',
                          res_diff = None, res_error = Some (RangeError 5 5 1),
                          res_ts_check_ok = Some False\<rparr>,
                         \<lparr>success = True, res_file = ''b.py'', res_op = ''append'',
                          res_diff = Some ''b.py\<newline>b.py'', res_error = None,
                          res_ts_check_ok = None\<rparr>],
           total = 2, succeeded = 1, failed = 1\<rparr>,
      \<lparr>tree = [''b.py'' \<mapsto> ''x\<newline>y\<newline>''],
       events = [\<lparr>ev_patch_id = ''order-1'', ev_file = ''b.py'', ev_op = ''append'',
                  ev_status = ''applied'', ev_task_id = None, ev_ts_check_ok = None,
                  ev_operation_index = 1, ev_total_operations = 2\<rparr>],
       warnings = []\<rparr>)"
proof -
  let ?m = "sample_manager False CommandNotFound"
  let ?b = "sample_batch [(sample_operation ''replace-block'' ''b.py'' ''y\<newline>'')
                      \<lparr>start := Some 5, end_line := Some 5\<rparr>,
                    sample_operation ''append'' ''b.py'' ''y\<newline>'']"
  let ?w = "\<lparr>tree = [''b.py'' \<mapsto> ''x\<newline>''], events = [], warnings = []\<rparr>"
  obtain br w' where h: "apply_batch ?m NoSchemaFile ?b ?w = (Inr br, w')"
    by (simp add: batch_defs eval_defs)
  from one_event_per_successful_operation [OF h]
  have "length (operations br) = length (patches ?b)" by simp
  then show ?thesis
    by (simp add: batch_defs eval_defs)
qed


text \<open>Dry-run mode: an operation writes nothing and still computes its diff.\<close>

lemma edit_lines_diff:
  "edit_lines m fs operation content = Inr (modified_lines, d) \<Longrightarrow>
     \<exists>original. fs (op_file operation) = Some original
       \<and> d = generate_unified_diff (udiff m) (op_file operation)
               (readlines original) modified_lines"
  by (auto simp: edit_lines_def replace_block_def insert_before_def insert_after_def
        append_op_def prepend_op_def read_file_def Let_def
        split: if_splits option.splits sum.splits)

lemma apply_operation_dry:
  assumes "dry_run m" and "apply_operation m fs operation = Inr (r, fs')"
  shows "fs' = fs
     \<and> (success r \<longrightarrow> res_diff r \<noteq> None \<and> res_diff r = computed_diff m fs operation)"
proof (cases "get_content fs operation")
  case (Inl e)
  with assms(2) show ?thesis by (simp add: apply_operation_def split: if_splits)
next
  case (Inr content)
  note gc = Inr
  show ?thesis
  proof (cases "edit_lines m fs operation content")
    case (Inl e)
    with gc assms(2) show ?thesis by (auto simp: apply_operation_def split: if_splits)
  next
    case (Inr p)
    obtain modified_lines d where p: "p = (modified_lines, d)" by (cases p)
    from edit_lines_diff [OF Inr [unfolded p]] obtain original where
      t: "fs (op_file operation) = Some original"
      "d = generate_unified_diff (udiff m) (op_file operation) (readlines original) modified_lines"
      by blast
    from assms gc Inr p t show ?thesis
      by (auto simp: apply_operation_def write_file_def computed_diff_def Let_def)
  qed
qed

lemma run_operations_dry:
  assumes "dry_run m"
  shows "tree (snd (run_operations m pid n i ops w)) = tree w
     \<and> (\<forall>results w'. run_operations m pid n i ops w = (Inr results, w') \<longrightarrow>
          list_all2 (\<lambda>operation r. success r \<longrightarrow>
                       res_diff r \<noteq> None \<and> res_diff r = computed_diff m (tree w) operation)
            ops results)"
proof (induction ops arbitrary: i w)
  case Nil
  show ?case by simp
next
  case (Cons operation rest)
  show ?case
  proof (cases "apply_operation m (tree w) operation")
    case (Inl e)
    then show ?thesis by simp
  next
    case (Inr p)
    obtain result fs' where p: "p = (result, fs')" by (cases p)
    from apply_operation_dry [OF assms Inr [unfolded p]] have
      fs': "fs' = tree w" and
      d: "success result \<longrightarrow> computed_diff m (tree w) operation \<noteq> None
            \<and> res_diff result = computed_diff m (tree w) operation" by metis+
    define w2 where "w2 =
      (if success result
       then notify_orchestrator
              \<lparr>ev_patch_id = pid, ev_file = op_file operation, ev_op = op operation,
               ev_status = ''applied'', ev_task_id = taskId operation,
               ev_ts_check_ok = res_ts_check_ok result,
               ev_operation_index = i, ev_total_operations = n\<rparr> (w\<lparr>tree := fs'\<rparr>)
       else w\<lparr>tree := fs'\<rparr>)"
    have tw2: "tree w2 = tree w" by (simp add: w2_def notify_orchestrator_def fs')
    have a: "run_operations m pid n i (operation # rest) w =
        (case run_operations m pid n (Suc i) rest w2 of
           (Inl e, w') \<Rightarrow> (Inl e, w')
         | (Inr results, w') \<Rightarrow> (Inr (result # results), w'))"
      using Inr p by (simp add: w2_def)
    from Cons.IH [of "Suc i" w2] tw2 d show ?thesis
      by (simp only: a) (auto split: prod.splits sum.splits)
  qed
qed

text \<open>
  C7.  In dry-run mode a batch leaves every file of the tree as it was,
  however it ends; and when it runs to its end, the result of every
  operation that succeeded carries a diff, the unified diff of its edit
  computed on the unchanged tree.
\<close>

theorem dry_run_never_mutates:
  assumes "dry_run m"
  shows "tree (snd (apply_batch m schema batch w)) = tree w
     \<and> (\<forall>br w'. apply_batch m schema batch w = (Inr br, w') \<longrightarrow>
          list_all2 (\<lambda>operation r. success r \<longrightarrow>
                       res_diff r \<noteq> None \<and> res_diff r = computed_diff m (tree w) operation)
            (patches batch) (operations br))"
proof (cases "validate_against_task_schema m schema batch")
  case (Inl f)
  then show ?thesis by (simp add: apply_batch_def)
next
  case (Inr ws)
  define pid where "pid = (if truthy (orderId batch) then the (orderId batch) else generated_id m)"
  define w0 where "w0 = w\<lparr>warnings := warnings w @ ws\<rparr>"
  have t0: "tree w0 = tree w" by (simp add: w0_def)
  from run_operations_dry [OF assms, of pid "length (patches batch)" 0 "patches batch" w0] t0 Inr
  show ?thesis
    by (auto simp: apply_batch_def Let_def pid_def [symmetric] w0_def [symmetric]
             split: prod.splits sum.splits)
qed

theorem dry_run_never_mutates_witness:
  "dry_run (sample_manager True CommandNotFound)
   \<and> apply_batch (sample_manager True CommandNotFound) NoSchemaFile
       (sample_batch [sample_operation ''append'' ''b.py'' ''y\<newline>''])
       \<lparr>tree = [''b.py'' \<mapsto> ''x\<newline>''], events = [], warnings = []\<rparr>
     = (Inr \<lparr>patch_id = ''order-1'', all_success = True,
             operations = [\<lparr>success = True, res_file = ''b.py'', res_op = ''append'',
                            res_diff = Some ''b.py\<newline>b.py'', res_error = None,
                            res_ts_check_ok = None\<rparr>],
             total = 1, succeeded = 1, failed = 0\<rparr>,
        \<lparr>tree = [''b.py'' \<mapsto> ''x\<newline>''],
         events = [\<lparr>ev_patch_id = ''order-1'', ev_file = ''b.py'', ev_op = ''append'',
                    ev_status = ''applied'', ev_task_id = None, ev_ts_check_ok = None,
                    ev_operation_index = 0, ev_total_operations = 1\<rparr>],
         warnings = []\<rparr>)
   \<and> computed_diff (sample_manager True CommandNotFound) [''b.py'' \<mapsto> ''x\<newline>'']
       (sample_operation ''append'' ''b.py'' ''y\<newline>'') = Some ''b.py\<newline>b.py''"
proof -
  let ?m = "sample_manager True CommandNotFound"
  let ?b = "sample_batch [sample_operation ''append'' ''b.py'' ''y\<newline>'']"
  let ?w = "\<lparr>tree = [''b.py'' \<mapsto> ''x\<newline>''], events = [], warnings = []\<rparr>"
  have h: "dry_run ?m" by (simp add: sample_manager_def)
  obtain br w' where run: "apply_batch ?m NoSchemaFile ?b ?w = (Inr br, w')"
    by (simp add: batch_defs eval_defs)
  from dry_run_never_mutates [OF h, of NoSchemaFile ?b ?w] run
  have "tree w' = tree ?w" by simp
  then show ?thesis
    using h by (simp add: batch_defs eval_defs computed_diff_def)
qed

end
